theory Spec2Isabelle
  imports Complex_Main "HOL-Library.Code_Target_Nat"
begin

section \<open>Status mappings\<close>

text \<open>
  A status mapping is a Python dictionary with string keys. Python dictionaries keep
  insertion order, so it is an association list; the keys of a dictionary are distinct.
  \<open>contains\<close> is \<^verbatim>\<open>k in d\<close>, \<open>map_of d k\<close> is \<^verbatim>\<open>d[k]\<close> (with \<open>None\<close> where Python
  raises KeyError), \<open>setitem\<close> is \<^verbatim>\<open>d[k] = v\<close> of an OrderedDict: an existing key keeps
  its position, a new key goes last.
\<close>

type_synonym 'v dict = "(string \<times> 'v) list"

definition keys :: "'v dict \<Rightarrow> string list" where
  "keys d = map fst d"

definition contains :: "'v dict \<Rightarrow> string \<Rightarrow> bool" where
  "contains d k \<longleftrightarrow> k \<in> set (keys d)"

definition setitem :: "'v dict \<Rightarrow> string \<Rightarrow> 'v \<Rightarrow> 'v dict" where
  "setitem d k v =
     (if contains d k then map (\<lambda>(k', v'). if k' = k then (k', v) else (k', v')) d
      else d @ [(k, v)])"

section \<open>Display ordering: default_display_filter_function\<close>

definition order :: "string list" where
  "order = [''eval_metric'', ''model_size'', ''flops'', ''total_params'',
            ''memory_footprint'', ''execution_time'']"

text \<open>
  \<^verbatim>\<open>leftovers = tuple(set(status_dict.keys()) - set(('inference_time',) + order))\<close>.
  The order in which Python iterates over a set is not fixed by the language (it follows
  the hashes of the keys and the history of the table), so the tuple is any enumeration
  without repetition of that set: \<open>is_leftovers status_dict leftovers\<close> says that
  \<open>leftovers\<close> is one, and the function takes the enumeration the interpreter chose as
  its first argument.
\<close>

definition is_leftovers :: "'v dict \<Rightarrow> string list \<Rightarrow> bool" where
  "is_leftovers status_dict leftovers \<longleftrightarrow>
     distinct leftovers \<and>
     set leftovers = set (keys status_dict) - set (''inference_time'' # order)"

text \<open>
  The loop \<^verbatim>\<open>for k in order: if k in status_dict: new_status_dict[k] = status_dict[k]\<close>,
  with the dictionary under construction as accumulator.
\<close>

fun filter_loop :: "'v dict \<Rightarrow> string list \<Rightarrow> 'v dict \<Rightarrow> 'v dict" where
  "filter_loop status_dict [] new_status_dict = new_status_dict"
| "filter_loop status_dict (k # ks) new_status_dict =
     (case map_of status_dict k of
        None \<Rightarrow> filter_loop status_dict ks new_status_dict
      | Some v \<Rightarrow> filter_loop status_dict ks (setitem new_status_dict k v))"

definition default_display_filter_function :: "string list \<Rightarrow> 'v dict \<Rightarrow> 'v dict" where
  "default_display_filter_function leftovers status_dict =
     filter_loop status_dict (order @ leftovers) []"

subsection \<open>The same function on a store of objects\<close>

text \<open>
  Python passes dictionaries by reference. A store is the list of the dictionaries
  allocated so far, an address is an index into it, and \<^verbatim>\<open>OrderedDict()\<close> allocates at
  the end. The function reads the dictionary at address \<open>a\<close> on every iteration and
  writes only through the reference it allocated.
\<close>

type_synonym 'v store = "'v dict list"

fun store_loop :: "nat \<Rightarrow> nat \<Rightarrow> string list \<Rightarrow> 'v store \<Rightarrow> 'v store" where
  "store_loop a new [] h = h"
| "store_loop a new (k # ks) h =
     (case map_of (h ! a) k of
        None \<Rightarrow> store_loop a new ks h
      | Some v \<Rightarrow> store_loop a new ks (h[new := setitem (h ! new) k v]))"

definition default_display_filter_function_store ::
  "string list \<Rightarrow> nat \<Rightarrow> 'v store \<Rightarrow> nat \<times> 'v store" where
  "default_display_filter_function_store leftovers a h =
     (let new = length h; h1 = h @ [[]]
      in (new, store_loop a new (order @ leftovers) h1))"

section \<open>Metrics, comparatives and Python errors\<close>

datatype error = KeyError | TypeError | AttributeError | ValueError | ZeroDivisionError

text \<open>
  Modelled from the spec: the enumeration \<^verbatim>\<open>Comparative\<close> of the module metrics, which is
  not among the sources. The spec names the variants RATIO (value_b / value_a), DIFF
  (value_b - value_a) and NONE (no comparison).
\<close>

datatype Comparative = RATIO | DIFF | NONE

text \<open>
  What \<^verbatim>\<open>get_comparative()\<close> returns: a Comparative, a string or None. The strings that
  \<^verbatim>\<open>Comparative(comp)\<close> accepts are the values of the enumeration's members, which the
  spec does not give: they are the parameter \<open>Comparative_of\<close> of the functions below,
  with \<open>None\<close> where the constructor raises ValueError.
\<close>

datatype comparative_tag = Null | Enum Comparative | Tag string

text \<open>
  Modelled from the spec: the class \<^verbatim>\<open>Metric\<close> of the module metrics, read through
  \<^verbatim>\<open>friendly_name()\<close>, \<^verbatim>\<open>value\<close> and \<^verbatim>\<open>get_value()\<close>, \<^verbatim>\<open>get_units()\<close>,
  \<^verbatim>\<open>get_comparative()\<close> and \<^verbatim>\<open>description()\<close>. A numeric value is the exact
  value of a Python int or of a finite float; infinities, NaN and a negative zero as the
  value of a metric are outside the model.
\<close>

record Metric =
  friendly_name :: string
  metric_value :: "rat option"
  get_units :: "string option"
  get_comparative :: comparative_tag
  description :: string

text \<open>A value of a status mapping: a string (as under name and backend) or a Metric.\<close>

datatype entry = Str string | M Metric

text \<open>The value that parse_metric hands on: the placeholder or a number.\<close>

datatype pyvalue = NotComputedValue | Num rat

subsection \<open>Doubles\<close>

text \<open>
  Python's true division yields a float, and a float is what \<^verbatim>\<open>{:.2f}\<close> formats (an
  int is converted first). \<open>round_double x\<close> is the double nearest to \<open>x \<ge> 0\<close>, ties
  to even: 53 significant bits, and multiples of \<open>2 ^ -1074\<close> below the normal range.
  \<open>bit_length\<close> is \<^verbatim>\<open>int.bit_length\<close>, \<open>floor_log2 x\<close> the exponent \<open>e\<close> with
  \<open>2 ^ e \<le> x < 2 ^ (e + 1)\<close>. The model has no infinities and no NaN: beyond the range
  of a double, where Python raises OverflowError on ints and yields inf on floats, it
  keeps rounding to 53 bits.
\<close>

definition round_half_even :: "rat \<Rightarrow> nat" where
  "round_half_even x =
     (let f = nat \<lfloor>x\<rfloor>; r = x - of_nat f
      in if r < 1 / 2 then f else if 1 / 2 < r then f + 1 else if even f then f else f + 1)"

fun bit_length :: "nat \<Rightarrow> nat" where
  "bit_length n = (if n = 0 then 0 else Suc (bit_length (n div 2)))"

declare bit_length.simps [simp del]

definition pow2 :: "int \<Rightarrow> rat" where
  "pow2 k = (if 0 \<le> k then 2 ^ nat k else 1 / 2 ^ nat (- k))"

definition floor_log2 :: "rat \<Rightarrow> int" where
  "floor_log2 x =
     (let (p, q) = quotient_of x;
          d = int (bit_length (nat p)) - int (bit_length (nat q))
      in if pow2 d \<le> x then d else d - 1)"

definition round_double :: "rat \<Rightarrow> rat" where
  "round_double x =
     (if x \<le> 0 then 0
      else (let k = max (floor_log2 x - 52) (- 1074)
            in of_nat (round_half_even (x / pow2 k)) * pow2 k))"

text \<open>
  A float that arithmetic has produced: its sign bit and its absolute value. The sign
  bit matters for a zero: \<^verbatim>\<open>0 / -5\<close> is \<^verbatim>\<open>-0.0\<close>, which prints with a minus sign.
\<close>

datatype pyfloat = Float bool rat

text \<open>
  Arithmetic of Python on these values: the class NotComputedValue defines neither
  division nor subtraction, so either raises TypeError; division by zero raises
  ZeroDivisionError. The quotient is rounded to a double. The difference of two floats
  is rounded at once and the difference of two ints when it is formatted: the model
  rounds at once, which gives the same digits.
\<close>

definition truediv :: "pyvalue \<Rightarrow> pyvalue \<Rightarrow> error + pyfloat" where
  "truediv x y =
     (case (x, y) of
        (Num a, Num b) \<Rightarrow>
          if b = 0 then Inl ZeroDivisionError
          else Inr (Float ((a < 0) \<noteq> (b < 0)) (round_double \<bar>a / b\<bar>))
      | _ \<Rightarrow> Inl TypeError)"

definition sub :: "pyvalue \<Rightarrow> pyvalue \<Rightarrow> error + pyfloat" where
  "sub x y =
     (case (x, y) of
        (Num a, Num b) \<Rightarrow> Inr (Float (a - b < 0) (round_double \<bar>a - b\<bar>))
      | _ \<Rightarrow> Inl TypeError)"

text \<open>
  Modelled from the spec: \<^verbatim>\<open>compare_status_values(mode, value_a, value_b)\<close> of the module
  metrics. RATIO returns value_b / value_a, DIFF returns value_b - value_a, NONE returns
  None without touching the values.
\<close>

definition compare_status_values ::
  "Comparative \<Rightarrow> pyvalue \<Rightarrow> pyvalue \<Rightarrow> error + pyfloat option" where
  "compare_status_values mode value_a value_b =
     (case mode of
        NONE \<Rightarrow> Inr None
      | RATIO \<Rightarrow> (case truediv value_b value_a of Inl e \<Rightarrow> Inl e | Inr r \<Rightarrow> Inr (Some r))
      | DIFF \<Rightarrow> (case sub value_b value_a of Inl e \<Rightarrow> Inl e | Inr r \<Rightarrow> Inr (Some r)))"

section \<open>Strings and format specifications\<close>

definition nl :: string where
  "nl = [CHR 0x0A]"

text \<open>\<^verbatim>\<open>str(n)\<close> and \<^verbatim>\<open>int(s)\<close> on decimal digits, \<^verbatim>\<open>s.isdigit()\<close> on ASCII.\<close>

definition digit_char :: "nat \<Rightarrow> char" where
  "digit_char d = ''0123456789'' ! d"

fun digits :: "nat \<Rightarrow> string" where
  "digits n = (if n < 10 then [digit_char n] else digits (n div 10) @ [digit_char (n mod 10)])"

declare digits.simps [simp del]

definition isdigit :: "string \<Rightarrow> bool" where
  "isdigit s \<longleftrightarrow> s \<noteq> [] \<and> list_all (\<lambda>c. c \<in> set ''0123456789'') s"

definition digit_val :: "char \<Rightarrow> nat" where
  "digit_val c = of_char c - 48"

definition int_of_str :: "string \<Rightarrow> int" where
  "int_of_str s = int (foldl (\<lambda>a c. 10 * a + digit_val c) 0 s)"

text \<open>\<^verbatim>\<open>s.split(c)\<close>: the pieces of \<open>s\<close> between the occurrences of \<open>c\<close>, never empty.\<close>

fun split :: "char \<Rightarrow> string \<Rightarrow> string list" where
  "split c [] = [[]]"
| "split c (x # xs) =
     (if x = c then [] # split c xs
      else (case split c xs of [] \<Rightarrow> [[x]] | w # ws \<Rightarrow> (x # w) # ws))"

text \<open>\<^verbatim>\<open>{:>w}\<close> and \<^verbatim>\<open>{:^w}\<close> on a string: padding with spaces, never truncating.\<close>

definition rjust :: "nat \<Rightarrow> string \<Rightarrow> string" where
  "rjust w s = replicate (w - length s) CHR '' '' @ s"

definition center :: "nat \<Rightarrow> string \<Rightarrow> string" where
  "center w s =
     (let pad = w - length s; left = pad div 2
      in replicate left CHR '' '' @ s @ replicate (pad - left) CHR '' '')"

text \<open>
  \<^verbatim>\<open>{:.pf}\<close> on a number: \<open>p\<close> digits after the point, the exact value rounded half to
  even, a minus sign for a negative number.
\<close>

definition fixed :: "nat \<Rightarrow> rat \<Rightarrow> string" where
  "fixed p x =
     (let n = round_half_even (\<bar>x\<bar> * 10 ^ p);
          frac = digits (n mod 10 ^ p)
      in (if x < 0 then ''-'' else []) @ digits (n div 10 ^ p) @
         (if p = 0 then [] else ''.'' @ replicate (p - length frac) CHR ''0'' @ frac))"

text \<open>\<^verbatim>\<open>{:.pf}\<close> on a float: the minus sign follows the sign bit.\<close>

definition format_float :: "nat \<Rightarrow> pyfloat \<Rightarrow> string" where
  "format_float p x =
     (case x of Float negative m \<Rightarrow> (if negative then ''-'' else []) @ fixed p m)"

subsection \<open>NotComputedValue.__format__\<close>

definition NotComputedValue_format :: "string \<Rightarrow> string" where
  "NotComputedValue_format format_spec =
     (let s = ''<NotComputed>''
      in if CHR ''>'' \<in> set format_spec then
           (let format_spec = last (split CHR ''>'' format_spec);
                format_spec = (if CHR ''.'' \<in> set format_spec
                               then hd (split CHR ''.'' format_spec) else format_spec)
            in if isdigit format_spec
               then replicate (nat (max (int_of_str format_spec - int (length s)) 0)) CHR '' '' @ s
               else s)
         else s)"

text \<open>
  \<^verbatim>\<open>"{:>{w}.{p}f}".format(value)\<close>: the nested fields are filled in first, giving the
  format specification \<^verbatim>\<open>>w.pf\<close>, which goes to the value's own \<^verbatim>\<open>__format__\<close>.
\<close>

definition format_value :: "nat \<Rightarrow> nat \<Rightarrow> pyvalue \<Rightarrow> string" where
  "format_value w p v =
     (case v of
        Num x \<Rightarrow> rjust w (fixed p x)
      | NotComputedValue \<Rightarrow> NotComputedValue_format (''>'' @ digits w @ ''.'' @ digits p @ ''f''))"

section \<open>parse_metric\<close>

text \<open>
  An object that is not a Metric has no \<^verbatim>\<open>friendly_name\<close>: the first line raises
  AttributeError.
\<close>

definition parse_metric ::
  "entry \<Rightarrow> error + (string \<times> pyvalue \<times> string \<times> comparative_tag \<times> string)" where
  "parse_metric obj =
     (case obj of
        Str _ \<Rightarrow> Inl AttributeError
      | M metric \<Rightarrow>
          (let text = friendly_name metric;
               (value, units, comparative) =
                 (case metric_value metric of
                    None \<Rightarrow> (NotComputedValue, [], Enum NONE)
                  | Some v \<Rightarrow>
                      (Num v, (case get_units metric of None \<Rightarrow> [] | Some u \<Rightarrow> u),
                       get_comparative metric));
               description = description metric
           in Inr (text, value, units, comparative, description)))"

section \<open>The report of one model\<close>

text \<open>
  \<^verbatim>\<open>"..." + status_dict[k] + "..."\<close>: KeyError when the key is absent, TypeError when the
  value is not a string.
\<close>

definition getitem_str :: "entry dict \<Rightarrow> string \<Rightarrow> error + string" where
  "getitem_str d k =
     (case map_of d k of
        None \<Rightarrow> Inl KeyError
      | Some (Str s) \<Rightarrow> Inr s
      | Some (M _) \<Rightarrow> Inl TypeError)"






section \<open>The report of two models\<close>

definition two_models_header :: "string \<Rightarrow> string \<Rightarrow> string \<Rightarrow> string \<Rightarrow> string" where
  "two_models_header name name_2 backend backend_2 =
     (let line_length = 122; col0_length = 40; col1_length = 25; col2_length = 25;
          col3_length = 25;
          summary_str = ''+'' @ replicate line_length CHR ''-'' @ ''+'' @ nl;
          line_new = ''|'' @ center line_length ''Deeplite Profiler'' @ ''|'';
          summary_str = summary_str @ line_new @ nl;
          summary_str = summary_str @ ''+'' @ replicate (col0_length + 1) CHR ''-'' @ ''+'' @
                        replicate (col1_length + 1) CHR ''-'' @ ''+'' @
                        replicate (col2_length + 1) CHR ''-'' @ ''+'' @
                        replicate (col2_length + 1) CHR ''-'' @ ''+'' @ nl;
          line_new = ''|'' @ rjust col0_length ''Param Name'' @ '' | '' @
                     rjust col1_length ''Enhancement'' @ ''| '' @
                     rjust col2_length (''Value ('' @ name @ '')'') @ ''| '' @
                     rjust col3_length (''Value ('' @ name_2 @ '')'') @ ''|'';
          summary_str = summary_str @ line_new @ nl;
          line_new = ''|'' @ rjust col0_length [] @ '' | '' @ rjust col1_length [] @ ''| '' @
                     rjust col2_length (''Backend: '' @ backend) @ ''| '' @
                     rjust col3_length (''Backend: '' @ backend_2) @ ''|'';
          summary_str = summary_str @ line_new @ nl;
          summary_str = summary_str @ ''+'' @ replicate (col0_length + 1) CHR ''-'' @ ''+'' @
                        replicate (col1_length + 1) CHR ''-'' @ ''+'' @
                        replicate (col2_length + 1) CHR ''-'' @ ''+'' @
                        replicate (col2_length + 1) CHR ''-'' @ ''+'' @ nl
      in summary_str)"

definition two_models_border :: string where
  "two_models_border =
     ''+'' @ replicate (40 + 1) CHR ''-'' @ ''+'' @ replicate (25 + 1) CHR ''-'' @ ''+'' @
     replicate (25 + 1) CHR ''-'' @ ''+'' @ replicate (25 + 1) CHR ''-'' @ ''+'' @ nl"

text \<open>
  The \<^verbatim>\<open>try\<close> block: a string tag goes through \<^verbatim>\<open>Comparative(comp)\<close>, then the values are
  compared. It yields the mode that \<open>comp\<close> holds afterwards and the result. The tag is
  never \<open>Null\<close> here, the caller has replaced it by NONE.
\<close>

definition try_compare ::
  "(string \<Rightarrow> Comparative option) \<Rightarrow> comparative_tag \<Rightarrow> pyvalue \<Rightarrow> pyvalue \<Rightarrow>
   error + (Comparative \<times> pyfloat option)" where
  "try_compare Comparative_of compar value_1 value_2 =
     (case (case compar of
              Tag s \<Rightarrow> (case Comparative_of s of None \<Rightarrow> Inl ValueError | Some c \<Rightarrow> Inr c)
            | Enum c \<Rightarrow> Inr c
            | Null \<Rightarrow> Inr NONE) of
        Inl e \<Rightarrow> Inl e
      | Inr compar \<Rightarrow>
          (case compare_status_values compar value_1 value_2 of
             Inl e \<Rightarrow> Inl e
           | Inr rval \<Rightarrow> Inr (compar, rval)))"

text \<open>
  The comparison cell when the units agree: \<^verbatim>\<open>try\<close>, the two \<^verbatim>\<open>except\<close> clauses and
  \<^verbatim>\<open>else\<close>. Any other exception leaves the function.
\<close>

definition comparison_cell ::
  "(string \<Rightarrow> Comparative option) \<Rightarrow> comparative_tag \<Rightarrow> pyvalue \<Rightarrow> pyvalue \<Rightarrow> error + string" where
  "comparison_cell Comparative_of compar value_1 value_2 =
     (case try_compare Comparative_of compar value_1 value_2 of
        Inl ZeroDivisionError \<Rightarrow> Inr ''INF''
      | Inl ValueError \<Rightarrow> Inr ''<Error Comparing>''
      | Inl e \<Rightarrow> Inl e
      | Inr (compar, rval) \<Rightarrow>
          (case rval of
             None \<Rightarrow> Inr ''---''
           | Some r \<Rightarrow>
               (let format_str = format_float 2 r;
                    format_str = (if compar \<noteq> DIFF then format_str @ ''x'' else format_str)
                in Inr format_str)))"

text \<open>
  The body of the loop for a key of both mappings whose first value is a Metric: the
  comparison cell \<open>val\<close>, the line of the table and the footnote.
\<close>

definition two_models_val ::
  "(string \<Rightarrow> Comparative option) \<Rightarrow> entry \<Rightarrow> entry \<Rightarrow> error + string" where
  "two_models_val Comparative_of sv sv2 =
     (case parse_metric sv of
        Inl e \<Rightarrow> Inl e
      | Inr (text, value_1, units_1, compar, desc) \<Rightarrow>
     (case parse_metric sv2 of
        Inl e \<Rightarrow> Inl e
      | Inr (_, value_2, units_2, _, _) \<Rightarrow>
          (let compar = (if compar = Null then Enum NONE else compar)
           in if units_1 \<noteq> [] \<and> units_2 \<noteq> [] \<and> units_1 \<noteq> units_2
              then Inr ''<Unsupported units>''
              else comparison_cell Comparative_of compar value_1 value_2)))"

definition two_models_row ::
  "(string \<Rightarrow> Comparative option) \<Rightarrow> entry \<Rightarrow> entry \<Rightarrow> error + (string \<times> string)" where
  "two_models_row Comparative_of sv sv2 =
     (case parse_metric sv of
        Inl e \<Rightarrow> Inl e
      | Inr (text, value_1, units_1, _, desc) \<Rightarrow>
     (case parse_metric sv2 of
        Inl e \<Rightarrow> Inl e
      | Inr (_, value_2, _, _, _) \<Rightarrow>
     (case two_models_val Comparative_of sv sv2 of
        Inl e \<Rightarrow> Inl e
      | Inr val \<Rightarrow>
          (let print_str = text @ '' ('' @ units_1 @ '')'';
               line_new = ''|'' @ rjust 40 print_str @ '' | '' @ rjust 25 val @ ''| '' @
                          format_value 25 4 value_1 @ ''| '' @ format_value 25 4 value_2 @ ''|''
           in Inr (line_new, ''* '' @ text @ '': '' @ desc @ nl)))))"

fun two_models_loop ::
  "(string \<Rightarrow> Comparative option) \<Rightarrow> entry dict \<Rightarrow> entry dict \<Rightarrow> string \<times> string \<Rightarrow>
   error + (string \<times> string)" where
  "two_models_loop Comparative_of status_dict_2 [] (summary_str, description_str) =
     Inr (summary_str, description_str)"
| "two_models_loop Comparative_of status_dict_2 ((sk, sv) # rest) (summary_str, description_str) =
     (case (map_of status_dict_2 sk, sv) of
        (Some sv2, M _) \<Rightarrow>
          (case two_models_row Comparative_of sv sv2 of
             Inl e \<Rightarrow> Inl e
           | Inr (line_new, note) \<Rightarrow>
               two_models_loop Comparative_of status_dict_2 rest
                 (summary_str @ line_new @ nl, description_str @ note))
      | _ \<Rightarrow> two_models_loop Comparative_of status_dict_2 rest (summary_str, description_str))"

definition make_two_models_summary_str ::
  "(string \<Rightarrow> Comparative option) \<Rightarrow> entry dict \<Rightarrow> entry dict \<Rightarrow> bool \<Rightarrow> string \<Rightarrow> string \<Rightarrow>
   error + string" where
  "make_two_models_summary_str Comparative_of status_dict status_dict_2 short_print
       description_str summary_str =
     (case getitem_str status_dict ''name'' of
        Inl e \<Rightarrow> Inl e
      | Inr name \<Rightarrow>
     (case getitem_str status_dict_2 ''name'' of
        Inl e \<Rightarrow> Inl e
      | Inr name_2 \<Rightarrow>
     (case getitem_str status_dict ''backend'' of
        Inl e \<Rightarrow> Inl e
      | Inr backend \<Rightarrow>
     (case getitem_str status_dict_2 ''backend'' of
        Inl e \<Rightarrow> Inl e
      | Inr backend_2 \<Rightarrow>
     (case two_models_loop Comparative_of status_dict_2 status_dict
             (summary_str @ two_models_header name name_2 backend backend_2, description_str) of
        Inl e \<Rightarrow> Inl e
      | Inr (summary_str, description_str) \<Rightarrow>
          (let summary_str = summary_str @ two_models_border
           in if \<not> short_print
              then Inr (summary_str @ ''Note: '' @ nl @ description_str @
                        ''+'' @ replicate 122 CHR ''-'' @ ''+'')
              else Inr summary_str))))))"

section \<open>Reference functions for the proofs\<close>

text \<open>
  The entries of \<open>d\<close> under the keys \<open>ks\<close>, in the order of \<open>ks\<close>, skipping the keys
  that \<open>d\<close> does not have.
\<close>

definition pick :: "'v dict \<Rightarrow> string list \<Rightarrow> 'v dict" where
  "pick d ks = List.map_filter (\<lambda>k. map_option (Pair k) (map_of d k)) ks"


text \<open>A status with the comparative tag of every Metric replaced by None.\<close>

definition erase_comparative :: "entry \<Rightarrow> entry" where
  "erase_comparative v = (case v of M m \<Rightarrow> M (m\<lparr>get_comparative := Null\<rparr>) | Str s \<Rightarrow> Str s)"

definition erase_comparatives :: "entry dict \<Rightarrow> entry dict" where
  "erase_comparatives d = map (\<lambda>(k, v). (k, erase_comparative v)) d"





section \<open>Properties of the display ordering\<close>

lemma pick_Nil: "pick d [] = []"
  by (simp add: pick_def)

lemma pick_Cons:
  "pick d (k # ks) = (case map_of d k of None \<Rightarrow> pick d ks | Some v \<Rightarrow> (k, v) # pick d ks)"
  by (simp add: pick_def split: option.splits)

lemma keys_pick: "keys (pick d ks) = filter (\<lambda>k. k \<in> set (keys d)) ks"
  by (induction ks)
     (auto simp: pick_Nil pick_Cons keys_def map_of_eq_None_iff[symmetric] split: option.splits)

lemma map_of_pick:
  "distinct ks \<Longrightarrow> map_of (pick d ks) k = (if k \<in> set ks then map_of d k else None)"
  by (induction ks) (auto simp: pick_Cons pick_Nil split: option.splits)

lemma pick_pick:
  "distinct ks \<Longrightarrow> set ks' \<subseteq> set ks \<Longrightarrow> pick (pick d ks) ks' = pick d ks'"
  by (induction ks') (auto simp: pick_Cons pick_Nil map_of_pick split: option.splits)

lemma setitem_fresh: "k \<notin> set (keys d) \<Longrightarrow> setitem d k v = d @ [(k, v)]"
  by (simp add: setitem_def contains_def)

text \<open>The loop appends: every key it stores is new to the dictionary under construction.\<close>

lemma filter_loop_pick:
  "distinct ks \<Longrightarrow> set ks \<inter> set (keys new) = {} \<Longrightarrow> filter_loop d ks new = new @ pick d ks"
proof (induction ks arbitrary: new)
  case Nil
  then show ?case by (simp add: pick_Nil)
next
  case (Cons k ks)
  show ?case
  proof (cases "map_of d k")
    case None
    with Cons show ?thesis by (simp add: pick_Cons)
  next
    case (Some v)
    from Cons.prems have fresh: "k \<notin> set (keys new)" by auto
    have "set ks \<inter> set (keys (new @ [(k, v)])) = {}"
      using Cons.prems by (auto simp: keys_def)
    with Cons.IH[of "new @ [(k, v)]"] Cons.prems Some fresh show ?thesis
      by (simp add: pick_Cons setitem_fresh)
  qed
qed

lemma is_leftovers_distinct: "is_leftovers d ls \<Longrightarrow> distinct (order @ ls)"
  by (auto simp: is_leftovers_def order_def)

lemma filter_eq_pick:
  "is_leftovers d ls \<Longrightarrow> default_display_filter_function ls d = pick d (order @ ls)"
  using filter_loop_pick[of "order @ ls" "[]" d] is_leftovers_distinct[of d ls]
  by (simp add: default_display_filter_function_def keys_def)

lemma filter_keys:
  assumes "is_leftovers status_dict leftovers"
  shows "keys (default_display_filter_function leftovers status_dict)
         = filter (contains status_dict) order @ leftovers"
  using assms
  by (auto simp: filter_eq_pick keys_pick is_leftovers_def filter_id_conv contains_def[abs_def])

lemma filter_key_set:
  assumes "is_leftovers status_dict leftovers"
  shows "set (keys (default_display_filter_function leftovers status_dict))
           = set (keys status_dict) - {''inference_time''}"
  using assms unfolding filter_keys[OF assms]
  by (auto simp: is_leftovers_def contains_def order_def)

lemma filter_map_of:
  assumes "is_leftovers status_dict leftovers"
  shows "map_of (default_display_filter_function leftovers status_dict) k
         = (if k \<in> set (order @ leftovers) then map_of status_dict k else None)"
  using is_leftovers_distinct[OF assms] by (simp only: filter_eq_pick[OF assms] map_of_pick)

text \<open>
  Claim C2. For every enumeration of the leftover keys that the set may yield, the result
  of default_display_filter_function has exactly the keys of the input other than
  inference_time, each once and with the value it has in the input; the canonical keys
  that the input has come first, in the canonical order, and the leftover keys follow;
  inference_time is never a key of the result, and the empty mapping gives the empty
  mapping.
\<close>

theorem default_display_filter_function_result:
  assumes "is_leftovers status_dict leftovers"
  shows "set (keys (default_display_filter_function leftovers status_dict))
           = set (keys status_dict) - {''inference_time''}
    \<and> distinct (keys (default_display_filter_function leftovers status_dict))
    \<and> (\<forall>k \<in> set (keys (default_display_filter_function leftovers status_dict)).
          map_of (default_display_filter_function leftovers status_dict) k = map_of status_dict k)
    \<and> keys (default_display_filter_function leftovers status_dict)
         = filter (contains status_dict) order @ leftovers
    \<and> set leftovers \<inter> set order = {}
    \<and> \<not> contains (default_display_filter_function leftovers status_dict) ''inference_time''
    \<and> (status_dict = [] \<longrightarrow> default_display_filter_function leftovers status_dict = [])"
proof -
  let ?r = "default_display_filter_function leftovers status_dict"
  note k = filter_keys[OF assms]
  have d: "distinct (order @ leftovers)" by (rule is_leftovers_distinct[OF assms])
  note s = filter_key_set[OF assms]
  have dk: "distinct (keys ?r)" using d unfolding k by auto
  have m: "\<forall>k \<in> set (keys ?r). map_of ?r k = map_of status_dict k"
    unfolding filter_map_of[OF assms] k by auto
  have e: "status_dict = [] \<longrightarrow> ?r = []"
    using assms
    by (auto simp: filter_eq_pick pick_def is_leftovers_def keys_def List.map_filter_def)
  have i: "set leftovers \<inter> set order = {}" using assms by (auto simp: is_leftovers_def)
  have n: "\<not> contains ?r ''inference_time''" unfolding contains_def s by simp
  from k s dk m e i n show ?thesis by blast
qed

theorem default_display_filter_function_result_witness:
  "is_leftovers [(''inference_time'', 1::nat), (''custom_x'', 2), (''flops'', 3)] [''custom_x'']
   \<and> default_display_filter_function [''custom_x'']
        [(''inference_time'', 1::nat), (''custom_x'', 2), (''flops'', 3)]
     = [(''flops'', 3), (''custom_x'', 2)]
   \<and> keys (default_display_filter_function [''custom_x'']
        [(''inference_time'', 1::nat), (''custom_x'', 2), (''flops'', 3)])
     = filter (contains [(''inference_time'', 1::nat), (''custom_x'', 2), (''flops'', 3)]) order
       @ [''custom_x'']"
proof -
  have h: "is_leftovers [(''inference_time'', 1::nat), (''custom_x'', 2), (''flops'', 3)]
             [''custom_x'']"
    by (auto simp: is_leftovers_def keys_def order_def)
  show ?thesis
    using h default_display_filter_function_result[OF h]
    by (simp add: default_display_filter_function_def order_def setitem_def contains_def keys_def)
qed

subsection \<open>The input is left as it was\<close>

lemma store_loop_frame:
  "a < new \<Longrightarrow> new < length h \<Longrightarrow>
   store_loop a new ks h = h[new := filter_loop (h ! a) ks (h ! new)]"
proof (induction ks arbitrary: h)
  case Nil
  then show ?case by simp
next
  case (Cons k ks)
  show ?case
  proof (cases "map_of (h ! a) k")
    case None
    with Cons show ?thesis by simp
  next
    case (Some v)
    let ?h' = "h[new := setitem (h ! new) k v]"
    have "store_loop a new ks ?h' = ?h'[new := filter_loop (?h' ! a) ks (?h' ! new)]"
      using Cons.IH[of ?h'] Cons.prems by simp
    with Some Cons.prems show ?thesis by simp
  qed
qed

lemma store_eq:
  assumes "a < length h"
  shows "default_display_filter_function_store ls a h
         = (length h, h @ [default_display_filter_function ls (h ! a)])"
proof -
  have "store_loop a (length h) (order @ ls) (h @ [[]])
        = (h @ [[]])[length h :=
            filter_loop ((h @ [[]]) ! a) (order @ ls) ((h @ [[]]) ! length h)]"
    using assms by (intro store_loop_frame) simp_all
  also have "\<dots> = h @ [filter_loop (h ! a) (order @ ls) []]"
    using assms by (simp add: nth_append)
  finally show ?thesis
    by (simp add: default_display_filter_function_store_def
        default_display_filter_function_def Let_def)
qed

text \<open>
  Claim C9. default_display_filter_function returns a newly constructed mapping and
  leaves its input unchanged: called on the dictionary at address \<open>a\<close> of a store, it
  returns an address that was not allocated before (so it is not \<open>a\<close>), every dictionary
  of the store before the call, the input with its inference_time entry among them, has
  the same entries in the same order after it, and the new dictionary holds the result.
\<close>

theorem default_display_filter_function_frame:
  assumes "a < length h"
    and "default_display_filter_function_store leftovers a h = (new, h')"
  shows "new = length h \<and> new \<noteq> a \<and> length h' = Suc (length h)
    \<and> take (length h) h' = h \<and> h' ! a = h ! a
    \<and> h' ! new = default_display_filter_function leftovers (h ! a)"
  using assms by (auto simp: store_eq nth_append)

theorem default_display_filter_function_frame_witness:
  "default_display_filter_function_store [''top1''] 0
      [[(''inference_time'', 3::nat), (''top1'', 5), (''flops'', 7)]]
   = (1, [[(''inference_time'', 3), (''top1'', 5), (''flops'', 7)],
          [(''flops'', 7), (''top1'', 5)]])"
  using default_display_filter_function_frame
    [of 0 "[[(''inference_time'', 3::nat), (''top1'', 5), (''flops'', 7)]]" "[''top1'']"]
  by (simp add: default_display_filter_function_store_def default_display_filter_function_def
      order_def setitem_def contains_def keys_def)

subsection \<open>Applying the function twice\<close>

lemma is_leftovers_second:
  assumes "is_leftovers d ls" "is_leftovers (default_display_filter_function ls d) ls'"
  shows "is_leftovers d ls'" "set ls' = set ls"
  using filter_key_set[OF assms(1)] assms by (auto simp: is_leftovers_def)

lemma filter_twice:
  assumes "is_leftovers d ls" "is_leftovers (default_display_filter_function ls d) ls'"
  shows "default_display_filter_function ls' (default_display_filter_function ls d)
         = default_display_filter_function ls' d"
proof -
  note l = is_leftovers_second[OF assms]
  have "default_display_filter_function ls' (default_display_filter_function ls d)
        = pick (pick d (order @ ls)) (order @ ls')"
    using filter_eq_pick[OF assms(2)] by (simp only: filter_eq_pick[OF assms(1)])
  also have "\<dots> = pick d (order @ ls')"
    using is_leftovers_distinct[OF assms(1)] l(2) by (intro pick_pick) auto
  finally show ?thesis by (simp only: filter_eq_pick[OF l(1)])
qed

text \<open>
  Claim C10, as stated, fails when the two calls enumerate the leftover set in different
  orders: with the leftover keys x, y, z, a first call that yields them as z, x, y and a
  second call that yields them as y, z, x give mappings in different orders.
\<close>

theorem default_display_filter_function_not_idempotent:
  "is_leftovers [(''x'', 1::nat), (''y'', 2), (''z'', 3)] [''z'', ''x'', ''y'']
   \<and> is_leftovers
        (default_display_filter_function [''z'', ''x'', ''y'']
           [(''x'', 1::nat), (''y'', 2), (''z'', 3)])
        [''y'', ''z'', ''x'']
   \<and> default_display_filter_function [''y'', ''z'', ''x'']
        (default_display_filter_function [''z'', ''x'', ''y'']
           [(''x'', 1::nat), (''y'', 2), (''z'', 3)])
      \<noteq> default_display_filter_function [''z'', ''x'', ''y'']
           [(''x'', 1::nat), (''y'', 2), (''z'', 3)]"
  by (auto simp: is_leftovers_def default_display_filter_function_def order_def setitem_def
      contains_def keys_def)

text \<open>
  Claim C10, amended. Applying default_display_filter_function to its own output gives
  what one application with the second call's enumeration gives: the same keys with the
  same values, the canonical keys first in the same order, the leftover keys after them
  in the order of the second enumeration; the two results are equal, order included,
  exactly when both calls enumerate the leftover keys in the same order.
\<close>

theorem default_display_filter_function_twice:
  assumes "is_leftovers d ls" "is_leftovers (default_display_filter_function ls d) ls'"
  shows "default_display_filter_function ls' (default_display_filter_function ls d)
           = default_display_filter_function ls' d
    \<and> set ls' = set ls
    \<and> map_of (default_display_filter_function ls' (default_display_filter_function ls d))
        = map_of (default_display_filter_function ls d)
    \<and> keys (default_display_filter_function ls d) = filter (contains d) order @ ls
    \<and> keys (default_display_filter_function ls' (default_display_filter_function ls d))
        = filter (contains d) order @ ls'
    \<and> (default_display_filter_function ls' (default_display_filter_function ls d)
           = default_display_filter_function ls d \<longleftrightarrow> ls' = ls)"
proof -
  note l = is_leftovers_second[OF assms]
  note t = filter_twice[OF assms]
  have m: "map_of (default_display_filter_function ls' d)
           = map_of (default_display_filter_function ls d)"
    using l(2) by (auto simp: fun_eq_iff filter_map_of[OF l(1)] filter_map_of[OF assms(1)])
  note k = filter_keys[OF assms(1)]
  note k' = filter_keys[OF l(1)]
  have "default_display_filter_function ls' d = default_display_filter_function ls d
        \<longleftrightarrow> ls' = ls"
  proof
    assume "default_display_filter_function ls' d = default_display_filter_function ls d"
    then have "keys (default_display_filter_function ls' d)
               = keys (default_display_filter_function ls d)" by simp
    then show "ls' = ls" unfolding k k' by simp
  qed simp
  with t m k k' l(2) show ?thesis by simp
qed

theorem default_display_filter_function_twice_witness:
  "is_leftovers [(''inference_time'', 1::nat), (''x'', 2), (''flops'', 3), (''y'', 4)] [''y'', ''x'']
   \<and> is_leftovers
        (default_display_filter_function [''y'', ''x'']
           [(''inference_time'', 1::nat), (''x'', 2), (''flops'', 3), (''y'', 4)])
        [''y'', ''x'']
   \<and> default_display_filter_function [''y'', ''x'']
        (default_display_filter_function [''y'', ''x'']
           [(''inference_time'', 1::nat), (''x'', 2), (''flops'', 3), (''y'', 4)])
      = [(''flops'', 3), (''y'', 4), (''x'', 2)]"
proof -
  let ?d = "[(''inference_time'', 1::nat), (''x'', 2), (''flops'', 3), (''y'', 4)]"
  have h1: "is_leftovers ?d [''y'', ''x'']"
    by (auto simp: is_leftovers_def keys_def order_def)
  have h2: "is_leftovers (default_display_filter_function [''y'', ''x''] ?d) [''y'', ''x'']"
    by (auto simp: is_leftovers_def default_display_filter_function_def order_def setitem_def
        contains_def keys_def)
  show ?thesis
    using h1 h2 default_display_filter_function_twice[OF h1 h2]
    by (simp add: default_display_filter_function_def order_def setitem_def contains_def keys_def)
qed

section \<open>Digits, split and the format of the placeholder\<close>



















section \<open>One row: the adapted metric and the comparison cell\<close>

text \<open>
  Claim C6. parse_metric returns the tuple (friendly name, value, units, comparative,
  description): for a metric without a value, the placeholder NotComputedValue, the
  empty string and Comparative.NONE; otherwise the value of the metric as it is, its
  units or the empty string when they are None, and its comparative tag; the description
  is the one of the metric in both cases.
\<close>

theorem parse_metric_tuple:
  "(metric_value metric = None \<longrightarrow>
      parse_metric (M metric) = Inr (friendly_name metric, NotComputedValue, [], Enum NONE, description metric))
   \<and> (\<forall>v. metric_value metric = Some v \<longrightarrow>
      parse_metric (M metric) =
        Inr (friendly_name metric, Num v, (case get_units metric of None \<Rightarrow> [] | Some u \<Rightarrow> u),
             get_comparative metric, description metric))"
  by (simp add: parse_metric_def)

theorem parse_metric_tuple_witness:
  "parse_metric (M \<lparr>friendly_name = ''Model Size'', metric_value = None, get_units = Some ''MB'',
                     get_comparative = Enum RATIO, description = ''size on disk''\<rparr>)
     = Inr (''Model Size'', NotComputedValue, [], Enum NONE, ''size on disk'')
   \<and> parse_metric (M \<lparr>friendly_name = ''Model Size'', metric_value = Some 10, get_units = None,
                     get_comparative = Tag ''div'', description = ''size on disk''\<rparr>)
     = Inr (''Model Size'', Num 10, [], Tag ''div'', ''size on disk'')"
  using parse_metric_tuple[of "\<lparr>friendly_name = ''Model Size'', metric_value = None, get_units = Some ''MB'',
                     get_comparative = Enum RATIO, description = ''size on disk''\<rparr>"]
    parse_metric_tuple[of "\<lparr>friendly_name = ''Model Size'', metric_value = Some 10, get_units = None,
                     get_comparative = Tag ''div'', description = ''size on disk''\<rparr>"]
  by simp


lemma parse_metric_absent:
  assumes "parse_metric sv = Inr (text, NotComputedValue, units, compar, desc)"
  shows "compar = Enum NONE"
  using assms by (cases sv) (auto simp: parse_metric_def split: option.splits)










section \<open>The second status\<close>

lemma parse_metric_erase:
  "parse_metric (erase_comparative sv2) =
     (case parse_metric sv2 of
        Inl e \<Rightarrow> Inl e
      | Inr (t, v, u, c, d) \<Rightarrow> Inr (t, v, u, (case v of NotComputedValue \<Rightarrow> Enum NONE | Num _ \<Rightarrow> Null), d))"
  by (cases sv2) (auto simp: parse_metric_def erase_comparative_def split: option.splits)

lemma two_models_val_erase:
  "two_models_val cv sv (erase_comparative sv2) = two_models_val cv sv sv2"
  unfolding two_models_val_def parse_metric_erase
  by (auto split: sum.splits prod.splits)

lemma two_models_row_erase:
  "two_models_row cv sv (erase_comparative sv2) = two_models_row cv sv sv2"
  unfolding two_models_row_def two_models_val_erase parse_metric_erase
  by (auto split: sum.splits prod.splits)

lemma map_of_erase: "map_of (erase_comparatives b) k = map_option erase_comparative (map_of b k)"
  by (induction b) (auto simp: erase_comparatives_def)

lemma getitem_str_erase: "getitem_str (erase_comparatives b) k = getitem_str b k"
  by (auto simp: getitem_str_def map_of_erase erase_comparative_def split: option.splits entry.splits)

lemma two_models_loop_erase:
  "two_models_loop cv (erase_comparatives b) a acc = two_models_loop cv b a acc"
proof (induction a arbitrary: acc)
  case Nil
  then show ?case by (cases acc) simp
next
  case (Cons item a)
  obtain sk sv where item: "item = (sk, sv)" by (cases item)
  obtain s ds where acc: "acc = (s, ds)" by (cases acc)
  show ?case
    using Cons.IH
    by (cases "map_of b sk"; cases sv)
       (simp_all add: item acc map_of_erase two_models_row_erase split: sum.splits)
qed

lemma make_two_models_summary_str_erase:
  "make_two_models_summary_str cv a (erase_comparatives b) sp ds ss
   = make_two_models_summary_str cv a b sp ds ss"
  unfolding make_two_models_summary_str_def getitem_str_erase two_models_loop_erase ..

text \<open>
  Claim C8. The result of make_two_models_summary_str, a string or an exception, does
  not depend on the comparative tags of the metrics of the second status: two second
  statuses that are equal once the comparative tag of every Metric entry is erased give
  the same result, whatever the first status and the other arguments are.
\<close>

theorem comparative_of_second_status_ignored:
  assumes "erase_comparatives status_dict_2 = erase_comparatives status_dict_2'"
  shows "make_two_models_summary_str Comparative_of status_dict status_dict_2 short_print description_str summary_str
       = make_two_models_summary_str Comparative_of status_dict status_dict_2' short_print description_str summary_str"
  using make_two_models_summary_str_erase[of Comparative_of status_dict status_dict_2 short_print description_str summary_str]
    make_two_models_summary_str_erase[of Comparative_of status_dict status_dict_2' short_print description_str summary_str]
    assms by simp

theorem comparative_of_second_status_ignored_witness:
  "erase_comparatives
     [(''name'', Str ''opt''), (''backend'', Str ''torch''),
      (''model_size'', M \<lparr>friendly_name = ''Model Size'', metric_value = Some 5,
         get_units = Some ''MB'', get_comparative = Enum DIFF, description = ''size''\<rparr>)]
   = erase_comparatives
     [(''name'', Str ''opt''), (''backend'', Str ''torch''),
      (''model_size'', M \<lparr>friendly_name = ''Model Size'', metric_value = Some 5,
         get_units = Some ''MB'', get_comparative = Tag ''bogus'', description = ''size''\<rparr>)]
   \<and> make_two_models_summary_str (\<lambda>s. None)
     [(''name'', Str ''base''), (''backend'', Str ''torch''),
      (''model_size'', M \<lparr>friendly_name = ''Model Size'', metric_value = Some 10,
         get_units = Some ''MB'', get_comparative = Enum RATIO, description = ''size''\<rparr>)]
     [(''name'', Str ''opt''), (''backend'', Str ''torch''),
      (''model_size'', M \<lparr>friendly_name = ''Model Size'', metric_value = Some 5,
         get_units = Some ''MB'', get_comparative = Enum DIFF, description = ''size''\<rparr>)]
     True [] nl
   = make_two_models_summary_str (\<lambda>s. None)
     [(''name'', Str ''base''), (''backend'', Str ''torch''),
      (''model_size'', M \<lparr>friendly_name = ''Model Size'', metric_value = Some 10,
         get_units = Some ''MB'', get_comparative = Enum RATIO, description = ''size''\<rparr>)]
     [(''name'', Str ''opt''), (''backend'', Str ''torch''),
      (''model_size'', M \<lparr>friendly_name = ''Model Size'', metric_value = Some 5,
         get_units = Some ''MB'', get_comparative = Tag ''bogus'', description = ''size''\<rparr>)]
     True [] nl"
proof -
  have h: "erase_comparatives [(''name'', Str ''opt''), (''backend'', Str ''torch''),
      (''model_size'', M \<lparr>friendly_name = ''Model Size'', metric_value = Some 5,
         get_units = Some ''MB'', get_comparative = Enum DIFF, description = ''size''\<rparr>)]
    = erase_comparatives [(''name'', Str ''opt''), (''backend'', Str ''torch''),
      (''model_size'', M \<lparr>friendly_name = ''Model Size'', metric_value = Some 5,
         get_units = Some ''MB'', get_comparative = Tag ''bogus'', description = ''size''\<rparr>)]"
    by (simp add: erase_comparatives_def erase_comparative_def)
  from h comparative_of_second_status_ignored[OF h] show ?thesis by (rule conjI)
qed

text \<open>
  Claim C5 fails on the code. The loop tests only the entry of the first status with
  \<^verbatim>\<open>isinstance(sv, Metric)\<close>: here the key model_size is in both mappings and is a
  Metric in the first, the second holds a string under it, and the call raises
  AttributeError in \<^verbatim>\<open>parse_metric(sv2)\<close> (a string has no friendly_name) instead of
  skipping the entry.
\<close>

theorem make_two_models_summary_str_raises_AttributeError:
  "make_two_models_summary_str (\<lambda>s. None)
     [(''name'', Str ''base''), (''backend'', Str ''torch''),
      (''model_size'', M \<lparr>friendly_name = ''Model Size'', metric_value = Some 10,
         get_units = Some ''MB'', get_comparative = Enum RATIO, description = ''size''\<rparr>)]
     [(''name'', Str ''opt''), (''backend'', Str ''torch''), (''model_size'', Str ''5 MB'')]
     True [] nl = Inl AttributeError"
  by (simp add: make_two_models_summary_str_def getitem_str_def two_models_row_def
      two_models_val_def parse_metric_def)

section \<open>Metrics without a value\<close>









text \<open>
  Claim C1 fails on the code. The first status has a model size of 10 MB with the
  comparative RATIO, the second status has the same metric without a value: the
  placeholder reaches the division of compare_status_values, which raises TypeError, and
  the \<^verbatim>\<open>except\<close> clauses catch only ZeroDivisionError and ValueError.
\<close>

theorem make_two_models_summary_str_raises_TypeError:
  "make_two_models_summary_str (\<lambda>s. None)
     [(''name'', Str ''base''), (''backend'', Str ''torch''),
      (''model_size'', M \<lparr>friendly_name = ''Model Size'', metric_value = Some 10,
         get_units = Some ''MB'', get_comparative = Enum RATIO, description = ''size''\<rparr>)]
     [(''name'', Str ''opt''), (''backend'', Str ''torch''),
      (''model_size'', M \<lparr>friendly_name = ''Model Size'', metric_value = None,
         get_units = Some ''MB'', get_comparative = Enum RATIO, description = ''size''\<rparr>)]
     True [] nl = Inl TypeError"
  by (simp add: make_two_models_summary_str_def getitem_str_def two_models_row_def
      two_models_val_def parse_metric_def comparison_cell_def try_compare_def
      compare_status_values_def truediv_def)

end
